theory Spec2Isabelle
  imports Complex_Main
begin

section \<open>AIToolbox::MDP::SparseModel: a shallow embedding\<close>

text \<open>
  The embedding follows \<^verbatim>\<open>External/AI-Toolbox/include/AIToolbox/MDP/SparseModel.hpp\<close>.
  A C++ \<^verbatim>\<open>double\<close> is read as a real number, so rounding is not part of the model; a
  \<^verbatim>\<open>size_t\<close> index is a natural number (every index the loops produce is below the
  dimension it addresses). A thrown \<^verbatim>\<open>std::invalid_argument\<close> is the value
  \<open>InvalidArgument\<close>.
\<close>

datatype error = InvalidArgument

subsection \<open>Sparse matrices\<close>

text \<open>
  \<^verbatim>\<open>SparseMatrix2D\<close> is an Eigen row-major sparse matrix: its dimensions and the stored
  coefficients. A position that is not stored reads as 0; a stored coefficient may
  itself be 0.
\<close>

record SparseMatrix2D =
  rows :: nat
  cols :: nat
  entries :: "nat \<times> nat \<Rightarrow> real option"

type_synonym SparseMatrix3D = "SparseMatrix2D list"

text \<open>\<^verbatim>\<open>SparseMatrix2D(r, c)\<close>: nothing stored.\<close>

definition emptyMatrix :: "nat \<Rightarrow> nat \<Rightarrow> SparseMatrix2D" where
  "emptyMatrix r c = \<lparr>rows = r, cols = c, entries = (\<lambda>k. None)\<rparr>"

text \<open>\<^verbatim>\<open>M.coeff(i, j)\<close>\<close>

definition coeff :: "SparseMatrix2D \<Rightarrow> nat \<Rightarrow> nat \<Rightarrow> real" where
  "coeff M i j = (case entries M (i, j) of None \<Rightarrow> 0 | Some v \<Rightarrow> v)"

text \<open>\<^verbatim>\<open>M.insert(i, j) = v\<close>\<close>

definition insert_coeff :: "SparseMatrix2D \<Rightarrow> nat \<Rightarrow> nat \<Rightarrow> real \<Rightarrow> SparseMatrix2D" where
  "insert_coeff M i j v = M\<lparr>entries := (entries M)((i, j) \<mapsto> v)\<rparr>"

text \<open>\<^verbatim>\<open>M.coeffRef(i, j) += v\<close>: the coefficient is created as 0 when it is not stored.\<close>

definition coeffRef_add :: "SparseMatrix2D \<Rightarrow> nat \<Rightarrow> nat \<Rightarrow> real \<Rightarrow> SparseMatrix2D" where
  "coeffRef_add M i j v = M\<lparr>entries := (entries M)((i, j) \<mapsto> coeff M i j + v)\<rparr>"

text \<open>\<^verbatim>\<open>M.coeffRef(i, j) = v\<close>\<close>

definition coeffRef_set :: "SparseMatrix2D \<Rightarrow> nat \<Rightarrow> nat \<Rightarrow> real \<Rightarrow> SparseMatrix2D" where
  "coeffRef_set M i j v = M\<lparr>entries := (entries M)((i, j) \<mapsto> v)\<rparr>"

text \<open>\<^verbatim>\<open>M.setZero()\<close> removes every stored coefficient and keeps the dimensions.\<close>

definition setZero :: "SparseMatrix2D \<Rightarrow> SparseMatrix2D" where
  "setZero M = M\<lparr>entries := (\<lambda>k. None)\<rparr>"

text \<open>\<^verbatim>\<open>M.makeCompressed()\<close> changes the storage layout only.\<close>

definition makeCompressed :: "SparseMatrix2D \<Rightarrow> SparseMatrix2D" where
  "makeCompressed M = M"

text \<open>\<^verbatim>\<open>M.row(i).sum()\<close>\<close>

definition rowSum :: "SparseMatrix2D \<Rightarrow> nat \<Rightarrow> real" where
  "rowSum M i = sum_list (map (coeff M i) [0..<cols M])"

subsection \<open>Tolerance comparison and the validator\<close>

text \<open>
  Modelled from the spec: \<^verbatim>\<open>checkEqualSmall\<close> is declared in \<^verbatim>\<open>AIToolbox/Utils\<close>, outside
  this header. The spec describes an absolute-difference comparison against one fixed
  small epsilon; the epsilon is the parameter \<open>eps\<close> of every function that compares.
\<close>

definition checkEqualSmall :: "real \<Rightarrow> real \<Rightarrow> real \<Rightarrow> bool" where
  "checkEqualSmall eps a b = (\<bar>a - b\<bar> \<le> eps)"

text \<open>
  Modelled from the spec: \<^verbatim>\<open>checkDifferentSmall\<close>, declared beside \<^verbatim>\<open>checkEqualSmall\<close>, is
  its negation: the two values are not equal within the tolerance.
\<close>

definition checkDifferentSmall :: "real \<Rightarrow> real \<Rightarrow> real \<Rightarrow> bool" where
  "checkDifferentSmall eps a b = (\<not> checkEqualSmall eps a b)"

text \<open>A dense container addressed as \<^verbatim>\<open>t[s][a][s1]\<close>; the code never checks its size.\<close>

type_synonym Naive3D = "nat \<Rightarrow> nat \<Rightarrow> nat \<Rightarrow> real"

text \<open>
  Modelled from the spec: \<^verbatim>\<open>isProbability(d1, d2, d3, in)\<close> is declared in
  \<^verbatim>\<open>AIToolbox/Utils/Probability.hpp\<close>, outside this header. The spec's validator
  (section 4.2) confirms that every value lies in [0,1] and that every row
  \<^verbatim>\<open>in[i][j]\<close> sums to 1 within the tolerance.
\<close>

definition isProbability :: "real \<Rightarrow> nat \<Rightarrow> nat \<Rightarrow> nat \<Rightarrow> Naive3D \<Rightarrow> bool" where
  "isProbability eps d1 d2 d3 t =
     list_all (\<lambda>i. list_all (\<lambda>j.
         list_all (\<lambda>x. 0 \<le> t i j x \<and> t i j x \<le> 1) [0..<d3]
         \<and> checkEqualSmall eps (sum_list (map (t i j) [0..<d3])) 1) [0..<d2]) [0..<d1]"

subsection \<open>The model\<close>

text \<open>
  The private members of \<^verbatim>\<open>SparseModel\<close>, named without the trailing underscore of
  the source. \<open>rand\<close> is the state of the random engine;
  \<^verbatim>\<open>Seeder::getSeed()\<close> is the argument \<open>seed\<close> of each constructor.
\<close>

record SparseModel =
  S :: nat
  A :: nat
  discount :: real
  transitions :: SparseMatrix3D
  rewards :: SparseMatrix2D
  rand :: nat

text \<open>
  Modelled from the spec: the body of \<^verbatim>\<open>setDiscount\<close> is in \<^verbatim>\<open>SparseModel.cpp\<close>, outside
  this header. By the spec (section 4.1) \<^verbatim>\<open>setDiscount(d)\<close> fails with \<open>InvalidArgument\<close>
  if \<open>d\<close> is outside [0,1] and otherwise replaces the stored scalar.
  A setter returns the exception it threw, if any, and the model as it is then.
\<close>

definition setDiscount :: "real \<Rightarrow> SparseModel \<Rightarrow> error option \<times> SparseModel" where
  "setDiscount d m =
     (if d < 0 \<or> d > 1 then (Some InvalidArgument, m) else (None, m\<lparr>discount := d\<rparr>))"

text \<open>
  Modelled from the spec: the body of \<^verbatim>\<open>getTransitionProbability\<close> is in
  \<^verbatim>\<open>SparseModel.cpp\<close>. By the spec (section 4.1) it is a sparse lookup in the table of
  the action that returns 0 when the entry is absent.
\<close>

definition getTransitionProbability :: "SparseModel \<Rightarrow> nat \<Rightarrow> nat \<Rightarrow> nat \<Rightarrow> real" where
  "getTransitionProbability m s a s1 = coeff (transitions m ! a) s s1"

text \<open>
  Modelled from the spec: the body of \<^verbatim>\<open>getExpectedReward\<close> is in \<^verbatim>\<open>SparseModel.cpp\<close>. By
  the spec (sections 3 and 4.1) it is a sparse lookup in the reward table, which is
  indexed by (state, action), that returns 0 when the entry is absent.
\<close>

definition getExpectedReward :: "SparseModel \<Rightarrow> nat \<Rightarrow> nat \<Rightarrow> nat \<Rightarrow> real" where
  "getExpectedReward m s a s1 = coeff (rewards m) s a"

subsection \<open>setTransitionFunction (dense container)\<close>

text \<open>
  The two inner loops of \<^verbatim>\<open>setTransitionFunction(const T &)\<close> for one action \<open>a\<close>: the
  table of the action is emptied, every value that differs from 0 by more than the
  tolerance is inserted, and the table is compressed.
\<close>

definition fillAction :: "real \<Rightarrow> Naive3D \<Rightarrow> nat \<Rightarrow> nat \<Rightarrow> SparseMatrix2D \<Rightarrow> SparseMatrix2D" where
  "fillAction eps t n a M =
     makeCompressed
       (fold (\<lambda>s. fold (\<lambda>s1 M'.
                 let p = t s a s1
                 in if checkDifferentSmall eps 0 p then insert_coeff M' s s1 p else M') [0..<n])
          [0..<n] (setZero M))"

text \<open>The body of the loop over the actions: \<^verbatim>\<open>transitions_[a]\<close> is replaced in place.\<close>

definition setTransitionAction :: "real \<Rightarrow> Naive3D \<Rightarrow> nat \<Rightarrow> SparseModel \<Rightarrow> SparseModel" where
  "setTransitionAction eps t a m =
     m\<lparr>transitions := (transitions m)[a := fillAction eps t (S m) a (transitions m ! a)]\<rparr>"

text \<open>The validation comes first; a container that fails it leaves every member as it was.\<close>

definition setTransitionFunction :: "real \<Rightarrow> Naive3D \<Rightarrow> SparseModel \<Rightarrow> error option \<times> SparseModel" where
  "setTransitionFunction eps t m =
     (if \<not> isProbability eps (S m) (A m) (S m) t then (Some InvalidArgument, m)
      else (None, fold (setTransitionAction eps t) [0..<A m] m))"

subsection \<open>setRewardFunction (dense container)\<close>

text \<open>The accumulation loop over the successors: \<^verbatim>\<open>newRew += r[s][a][s1] * transitions_[a].coeff(s, s1)\<close>.\<close>

definition newRew :: "Naive3D \<Rightarrow> SparseMatrix2D \<Rightarrow> nat \<Rightarrow> nat \<Rightarrow> nat \<Rightarrow> real" where
  "newRew r T n s a = fold (\<lambda>s1 acc. acc + r s a s1 * coeff T s s1) [0..<n] 0"

text \<open>\<^verbatim>\<open>setRewardFunction(const R &)\<close> has no \<^verbatim>\<open>throw\<close>: it returns the model.\<close>

definition setRewardFunction :: "real \<Rightarrow> Naive3D \<Rightarrow> SparseModel \<Rightarrow> SparseModel" where
  "setRewardFunction eps r m =
     m\<lparr>rewards := makeCompressed
        (fold (\<lambda>a. fold (\<lambda>s R.
                  let nr = newRew r (transitions m ! a) (S m) s a
                  in if checkDifferentSmall eps nr 0 then coeffRef_set R s a nr else R) [0..<S m])
           [0..<A m] (setZero (rewards m)))\<rparr>"

subsection \<open>Constructors\<close>

text \<open>
  The member initialisers shared by the two template constructors: \<open>S\<close>, \<open>A\<close>, \<open>A\<close> empty
  \<open>S \<times> S\<close> tables, an empty \<open>S \<times> A\<close> reward table and the seeded engine. \<^verbatim>\<open>discount_\<close> has
  no initialiser; \<^verbatim>\<open>setDiscount\<close> writes it or throws before anything reads it, and it
  stands as 0 until then.
\<close>

definition initModel :: "nat \<Rightarrow> nat \<Rightarrow> nat \<Rightarrow> SparseModel" where
  "initModel seed s a =
     \<lparr>S = s, A = a, discount = 0, transitions = replicate a (emptyMatrix s s),
      rewards = emptyMatrix s a, rand = seed\<rparr>"

text \<open>
  \<^verbatim>\<open>SparseModel(s, a, t, r, d)\<close>: an exception of a setter leaves the constructor, and no
  model exists then.
\<close>

definition SparseModel_dense ::
  "real \<Rightarrow> nat \<Rightarrow> nat \<Rightarrow> nat \<Rightarrow> Naive3D \<Rightarrow> Naive3D \<Rightarrow> real \<Rightarrow> error + SparseModel" where
  "SparseModel_dense eps seed s a t r d =
     (case setDiscount d (initModel seed s a) of
        (Some e, m1) \<Rightarrow> Inl e
      | (None, m1) \<Rightarrow>
          (case setTransitionFunction eps t m1 of
             (Some e, m2) \<Rightarrow> Inl e
           | (None, m2) \<Rightarrow> Inr (setRewardFunction eps r m2)))"

text \<open>
  The read contract \<^verbatim>\<open>IsModel\<close> of the source of a conversion: the five operations the
  copy constructor calls.
\<close>

record IsModel =
  getS :: nat
  getA :: nat
  getDiscount :: real
  transitionProbability :: "nat \<Rightarrow> nat \<Rightarrow> nat \<Rightarrow> real"
  expectedReward :: "nat \<Rightarrow> nat \<Rightarrow> nat \<Rightarrow> real"

text \<open>A \<^verbatim>\<open>for\<close> loop whose body may throw: the first exception ends the loop.\<close>

fun forE :: "'a list \<Rightarrow> ('a \<Rightarrow> 'st \<Rightarrow> error + 'st) \<Rightarrow> 'st \<Rightarrow> error + 'st" where
  "forE [] body st = Inr st"
| "forE (x # xs) body st =
     (case body x st of Inl e \<Rightarrow> Inl e | Inr st' \<Rightarrow> forE xs body st')"

text \<open>
  The body of the innermost loop of \<^verbatim>\<open>SparseModel(const M &)\<close> on the two tables under
  construction.
\<close>

definition copyTriple ::
  "real \<Rightarrow> IsModel \<Rightarrow> nat \<Rightarrow> nat \<Rightarrow> nat \<Rightarrow> SparseMatrix3D \<times> SparseMatrix2D
     \<Rightarrow> error + SparseMatrix3D \<times> SparseMatrix2D" where
  "copyTriple eps model s a s1 st =
     (case st of (T, R) \<Rightarrow>
        let p = transitionProbability model s a s1
        in if p < 0 \<or> p > 1 then Inl InvalidArgument
           else
             let T' = (if checkDifferentSmall eps 0 p then T[a := insert_coeff (T ! a) s s1 p] else T);
                 r = expectedReward model s a s1;
                 R' = (if checkDifferentSmall eps 0 r then coeffRef_add R s a (r * p) else R)
             in Inr (T', R'))"

text \<open>The body of the loop over the actions: the row is filled, then its sum is checked.\<close>

definition copyRow ::
  "real \<Rightarrow> IsModel \<Rightarrow> nat \<Rightarrow> nat \<Rightarrow> nat \<Rightarrow> SparseMatrix3D \<times> SparseMatrix2D
     \<Rightarrow> error + SparseMatrix3D \<times> SparseMatrix2D" where
  "copyRow eps model n s a st =
     (case forE [0..<n] (copyTriple eps model s a) st of
        Inl e \<Rightarrow> Inl e
      | Inr (T, R) \<Rightarrow>
          if checkDifferentSmall eps 1 (rowSum (T ! a) s) then Inl InvalidArgument
          else Inr (T, R))"

text \<open>\<^verbatim>\<open>SparseModel(const M & model)\<close>\<close>

definition SparseModel_copy :: "real \<Rightarrow> nat \<Rightarrow> IsModel \<Rightarrow> error + SparseModel" where
  "SparseModel_copy eps seed model =
     (case setDiscount (getDiscount model) (initModel seed (getS model) (getA model)) of
        (Some e, m1) \<Rightarrow> Inl e
      | (None, m1) \<Rightarrow>
          (case forE [0..<S m1] (\<lambda>s. forE [0..<A m1] (copyRow eps model (S m1) s))
                  (transitions m1, rewards m1) of
             Inl e \<Rightarrow> Inl e
           | Inr (T, R) \<Rightarrow>
               Inr (m1\<lparr>transitions := map makeCompressed T, rewards := makeCompressed R\<rparr>)))"


subsection \<open>What the conversions store\<close>

text \<open>The value read back for a probability \<open>p\<close> after sparsification.\<close>

definition stored :: "real \<Rightarrow> real \<Rightarrow> real" where
  "stored eps p = (if checkDifferentSmall eps 0 p then p else 0)"

text \<open>The reward the copy constructor accumulates for (s, a): its guard reads \<open>r\<close>.\<close>

definition copiedReward :: "real \<Rightarrow> IsModel \<Rightarrow> nat \<Rightarrow> nat \<Rightarrow> real" where
  "copiedReward eps model s a =
     (\<Sum>s1\<leftarrow>[0..<getS model].
        if checkDifferentSmall eps 0 (expectedReward model s a s1)
        then expectedReward model s a s1 * transitionProbability model s a s1 else 0)"

text \<open>The two conditions under which the copy constructor throws while it handles row (s, a).\<close>

definition rowRejected :: "real \<Rightarrow> IsModel \<Rightarrow> nat \<Rightarrow> nat \<Rightarrow> bool" where
  "rowRejected eps model s a =
     (list_ex (\<lambda>s1. transitionProbability model s a s1 < 0 \<or> 1 < transitionProbability model s a s1)
        [0..<getS model]
      \<or> checkDifferentSmall eps 1 (\<Sum>s1\<leftarrow>[0..<getS model]. stored eps (transitionProbability model s a s1)))"

text \<open>
  The loop invariant of the copy constructor: \<open>D\<close> holds the rows (s, a) already filled.
\<close>

definition copyInv ::
  "real \<Rightarrow> IsModel \<Rightarrow> (nat \<times> nat) set \<Rightarrow> SparseMatrix3D \<times> SparseMatrix2D \<Rightarrow> bool" where
  "copyInv eps model D st =
     (case st of (T, R) \<Rightarrow>
        length T = getA model
        \<and> (\<forall>a<getA model. cols (T ! a) = getS model
              \<and> (\<forall>s s1. coeff (T ! a) s s1 =
                    (if (s, a) \<in> D \<and> s1 < getS model
                     then stored eps (transitionProbability model s a s1) else 0)))
        \<and> (\<forall>s a. coeff R s a = (if (s, a) \<in> D then copiedReward eps model s a else 0)))"

text \<open>Reading a triple back after a dense container \<open>t\<close> was loaded.\<close>

definition dense_reads_back :: "real \<Rightarrow> Naive3D \<Rightarrow> SparseModel \<Rightarrow> nat \<Rightarrow> nat \<Rightarrow> nat \<Rightarrow> bool" where
  "dense_reads_back eps t m' s a s1 =
     (\<bar>getTransitionProbability m' s a s1 - t s a s1\<bar> \<le> eps
      \<and> (if \<bar>t s a s1\<bar> \<le> eps then getTransitionProbability m' s a s1 = 0
          else getTransitionProbability m' s a s1 = t s a s1))"

subsection \<open>Basic constructor, terminal states and the sampler\<close>

text \<open>
  Modelled from the spec: the table the basic constructor gives every action, a single
  self-loop of probability 1 for every state (section 4.1).
\<close>

definition identityMatrix :: "nat \<Rightarrow> SparseMatrix2D" where
  "identityMatrix n =
     \<lparr>rows = n, cols = n, entries = (\<lambda>(i, j). if i = j \<and> i < n then Some 1 else None)\<rparr>"

text \<open>
  Modelled from the spec: the body of the basic constructor \<^verbatim>\<open>SparseModel(s, a, discount)\<close>
  is in \<^verbatim>\<open>SparseModel.cpp\<close>, outside this header. By the spec (section 4.1) it gives
  every action the self-loop table, sets all rewards to 0, and fails with
  \<open>InvalidArgument\<close> when the discount is outside [0,1].
\<close>

definition SparseModel_basic :: "nat \<Rightarrow> nat \<Rightarrow> nat \<Rightarrow> real \<Rightarrow> error + SparseModel" where
  "SparseModel_basic seed s a d =
     (if d < 0 \<or> 1 < d then Inl InvalidArgument
      else Inr \<lparr>S = s, A = a, discount = d, transitions = replicate a (identityMatrix s),
                rewards = emptyMatrix s a, rand = seed\<rparr>)"

text \<open>
  Modelled from the spec: the body of \<^verbatim>\<open>isTerminal\<close> is in \<^verbatim>\<open>SparseModel.cpp\<close>, outside
  this header. By the
  spec (sections 3 and 4.1) a state is terminal iff, for every action, its only nonzero
  transition is the self-loop, of probability 1.
\<close>

definition isTerminal :: "SparseModel \<Rightarrow> nat \<Rightarrow> bool" where
  "isTerminal m s =
     list_all (\<lambda>a. getTransitionProbability m s a s = 1
                  \<and> list_all (\<lambda>s1. s1 = s \<or> getTransitionProbability m s a s1 = 0) [0..<S m])
       [0..<A m]"

text \<open>
  Modelled from the spec: the sparse nonzero entries of row (action, from-state) that
  the sampler walks (section 4.4), as the successors in column order.
\<close>

definition nonzeroSuccessors :: "SparseModel \<Rightarrow> nat \<Rightarrow> nat \<Rightarrow> nat list" where
  "nonzeroSuccessors m s a = filter (\<lambda>s1. getTransitionProbability m s a s1 \<noteq> 0) [0..<S m]"

text \<open>
  Modelled from the spec: the running total over the nonzero entries, which selects the
  first successor whose cumulative probability exceeds the drawn value \<open>u\<close>
  (section 4.4).
\<close>

fun firstExceeding :: "real \<Rightarrow> real \<Rightarrow> (nat \<Rightarrow> real) \<Rightarrow> nat list \<Rightarrow> nat option" where
  "firstExceeding u acc p [] = None"
| "firstExceeding u acc p (s1 # rest) =
     (if u < acc + p s1 then Some s1 else firstExceeding u (acc + p s1) p rest)"

text \<open>
  Modelled from the spec: when the accumulated total never exceeds the draw, the last
  nonzero successor of the row is selected (section 4.4). The spec names no successor
  for a row without nonzero entry: the result is \<open>None\<close> there.
\<close>

definition sampleProbability :: "real \<Rightarrow> (nat \<Rightarrow> real) \<Rightarrow> nat list \<Rightarrow> nat option" where
  "sampleProbability u p nz =
     (case firstExceeding u 0 p nz of
        Some s1 \<Rightarrow> Some s1
      | None \<Rightarrow> (if nz = [] then None else Some (last nz)))"

text \<open>
  Modelled from the spec: the body of \<^verbatim>\<open>sampleSR\<close> is in \<^verbatim>\<open>SparseModel.cpp\<close>, outside this
  header. By the spec (section 4.4) one uniform value is drawn from the engine of the
  model, a successor is selected from the row, and it is returned with the reward read
  at (s, a). The draw and the next engine state are \<open>uniform\<close> applied to the engine
  state; nothing else of the model changes.
\<close>

definition sampleSR ::
  "(nat \<Rightarrow> real \<times> nat) \<Rightarrow> SparseModel \<Rightarrow> nat \<Rightarrow> nat \<Rightarrow> (nat \<times> real) option \<times> SparseModel" where
  "sampleSR uniform m s a =
     (case uniform (rand m) of
        (u, g) \<Rightarrow>
          (map_option (\<lambda>s1. (s1, coeff (rewards m) s a))
             (sampleProbability u (getTransitionProbability m s a) (nonzeroSuccessors m s a)),
           m\<lparr>rand := g\<rparr>))"

subsection \<open>Predicates of the statements\<close>

text \<open>
  Row (s, a) of a model, read through \<open>getTransitionProbability\<close>, is a probability law
  up to \<open>tol\<close>: every value lies in [0,1] and the values sum to 1 within \<open>tol\<close>.
\<close>

definition simplexWithin :: "real \<Rightarrow> SparseModel \<Rightarrow> nat \<Rightarrow> nat \<Rightarrow> bool" where
  "simplexWithin tol m s a =
     (list_all (\<lambda>s1. 0 \<le> getTransitionProbability m s a s1 \<and> getTransitionProbability m s a s1 \<le> 1)
        [0..<S m]
      \<and> \<bar>(\<Sum>s1\<leftarrow>[0..<S m]. getTransitionProbability m s a s1) - 1\<bar> \<le> tol)"

text \<open>A valid model in the sense of the spec (section 3): discount and every row.\<close>

definition validModel :: "real \<Rightarrow> SparseModel \<Rightarrow> bool" where
  "validModel eps m =
     (0 \<le> discount m \<and> discount m \<le> 1 \<and> length (transitions m) = A m
      \<and> list_all (\<lambda>s. list_all (\<lambda>a. simplexWithin eps m s a) [0..<A m]) [0..<S m])"

text \<open>
  The two conditions on a row as they read on the source itself: every probability of
  the row lies in [0,1], and the probabilities of the row sum to 1 within the tolerance.
\<close>

definition sourceRowOk :: "real \<Rightarrow> IsModel \<Rightarrow> nat \<Rightarrow> nat \<Rightarrow> bool" where
  "sourceRowOk eps model s a =
     (list_all (\<lambda>s1. 0 \<le> transitionProbability model s a s1 \<and> transitionProbability model s a s1 \<le> 1)
        [0..<getS model]
      \<and> checkEqualSmall eps (\<Sum>s1\<leftarrow>[0..<getS model]. transitionProbability model s a s1) 1)"

text \<open>The copy constructor throws for this source: its discount, or one of its rows.\<close>

definition copyRejected :: "real \<Rightarrow> IsModel \<Rightarrow> bool" where
  "copyRejected eps model =
     (getDiscount model < 0 \<or> 1 < getDiscount model
      \<or> list_ex (\<lambda>s. list_ex (\<lambda>a. rowRejected eps model s a) [0..<getA model]) [0..<getS model])"

text \<open>
  The reward entry as the spec's sentence on the conversion words it: the product
  \<open>r * p\<close> is added when the product differs from 0 by more than the tolerance.
\<close>

definition claimedReward :: "real \<Rightarrow> IsModel \<Rightarrow> nat \<Rightarrow> nat \<Rightarrow> real" where
  "claimedReward eps model s a =
     (\<Sum>s1\<leftarrow>[0..<getS model].
        if checkDifferentSmall eps 0 (expectedReward model s a s1 * transitionProbability model s a s1)
        then expectedReward model s a s1 * transitionProbability model s a s1 else 0)"

text \<open>
  Inverse-transform sampling, stated on cumulative sums: \<open>s1\<close> is the first nonzero
  successor whose cumulative probability exceeds \<open>u\<close>, or no cumulative probability
  exceeds \<open>u\<close> and \<open>s1\<close> is the last nonzero successor.
\<close>

definition cumulative :: "(nat \<Rightarrow> real) \<Rightarrow> nat \<Rightarrow> real" where
  "cumulative p j = sum_list (map p [0..<Suc j])"

definition inverseTransform :: "real \<Rightarrow> (nat \<Rightarrow> real) \<Rightarrow> nat \<Rightarrow> nat \<Rightarrow> bool" where
  "inverseTransform u p n s1 =
     ((u < cumulative p s1 \<and> (\<forall>j<s1. p j \<noteq> 0 \<longrightarrow> cumulative p j \<le> u))
      \<or> ((\<forall>j<n. p j \<noteq> 0 \<longrightarrow> cumulative p j \<le> u) \<and> (\<forall>j<n. s1 < j \<longrightarrow> p j = 0)))"

subsection \<open>Example inputs\<close>

definition t37 :: Naive3D where
  "t37 s a s1 = (if s1 = 0 then 3/10 else 7/10)"

definition tHalf :: Naive3D where
  "tHalf s a s1 = (if s1 = 0 then 1/2 else 0)"

definition rEx :: Naive3D where
  "rEx s a s1 = (if s1 = 0 then 10 else 20)"

text \<open>A dense row that passes the validation and holds one value below the tolerance.\<close>

definition ceDense :: Naive3D where
  "ceDense s a s1 = (if s1 = 0 then 8/10000000 else 1 - 16/10000000)"

text \<open>Sources of a conversion.\<close>

definition srcOk :: IsModel where
  "srcOk = \<lparr>getS = 2, getA = 1, getDiscount = 9/10,
            transitionProbability = t37, expectedReward = rEx\<rparr>"

definition srcBadDiscount :: IsModel where
  "srcBadDiscount = \<lparr>getS = 1, getA = 1, getDiscount = 2,
            transitionProbability = (\<lambda>s a s1. 1), expectedReward = (\<lambda>s a s1. 0)\<rparr>"

definition srcTiny :: IsModel where
  "srcTiny = \<lparr>getS = 3, getA = 1, getDiscount = 1,
            transitionProbability = (\<lambda>s a s1. if s1 < 2 then 6/10000000 else 1 - 12/10000000),
            expectedReward = (\<lambda>s a s1. 0)\<rparr>"

definition srcNegligible :: IsModel where
  "srcNegligible = \<lparr>getS = 2, getA = 1, getDiscount = 1,
            transitionProbability = (\<lambda>s a s1. if s1 = 0 then 5/10000000 else 1 - 5/10000000),
            expectedReward = (\<lambda>s a s1. if s1 = 0 then 1 else 0)\<rparr>"

text \<open>Sparse models: two loaded through the dense setters, one with tables given directly.\<close>

definition model37 :: SparseModel where
  "model37 = snd (setTransitionFunction (1/1000000) t37 (initModel 0 2 1))"

definition modelEx :: SparseModel where
  "modelEx = setRewardFunction (1/1000000) rEx model37"


text \<open>An engine whose draw is always 1/2.\<close>

definition uniformHalf :: "nat \<Rightarrow> real \<times> nat" where
  "uniformHalf g = (1/2, Suc g)"

section \<open>Properties\<close>

subsection \<open>The validator\<close>

lemma isProbability_iff:
  "isProbability eps d1 d2 d3 t \<longleftrightarrow>
     (\<forall>i<d1. \<forall>j<d2. (\<forall>x<d3. 0 \<le> t i j x \<and> t i j x \<le> 1)
         \<and> \<bar>sum_list (map (t i j) [0..<d3]) - 1\<bar> \<le> eps)"
  by (simp add: isProbability_def list_all_iff checkEqualSmall_def Ball_def)

lemma isProbability_eps:
  assumes "isProbability eps d1 d2 d3 t" "i < d1" "j < d2"
  shows "0 \<le> eps"
  using assms unfolding isProbability_iff by (smt (verit))

subsection \<open>The loops of the dense setters\<close>

lemma fold_insert_row:
  "entries (fold (\<lambda>s1 M'. let p = f s1 in if c p then insert_coeff M' s s1 p else M') xs M) (i, j) =
     (if i = s \<and> j \<in> set xs \<and> c (f j) then Some (f j) else entries M (i, j))"
  by (induction xs arbitrary: M) (auto simp: insert_coeff_def Let_def)

lemma fold_insert_row_dims:
  "cols (fold (\<lambda>s1 M'. let p = f s1 in if c p then insert_coeff M' s s1 p else M') xs M) = cols M"
  "rows (fold (\<lambda>s1 M'. let p = f s1 in if c p then insert_coeff M' s s1 p else M') xs M) = rows M"
  by (induction xs arbitrary: M) (auto simp: insert_coeff_def Let_def)

lemma fold_insert_rows:
  "entries (fold (\<lambda>s. fold (\<lambda>s1 M'. let p = f s s1 in if c p then insert_coeff M' s s1 p else M') xs) ys M) (i, j) =
     (if i \<in> set ys \<and> j \<in> set xs \<and> c (f i j) then Some (f i j) else entries M (i, j))"
  by (induction ys arbitrary: M) (auto simp: fold_insert_row)

lemma fold_insert_rows_dims:
  "cols (fold (\<lambda>s. fold (\<lambda>s1 M'. let p = f s s1 in if c p then insert_coeff M' s s1 p else M') xs) ys M) = cols M"
  "rows (fold (\<lambda>s. fold (\<lambda>s1 M'. let p = f s s1 in if c p then insert_coeff M' s s1 p else M') xs) ys M) = rows M"
  by (induction ys arbitrary: M) (auto simp: fold_insert_row_dims)

lemma entries_fillAction:
  "entries (fillAction eps t n a M) (s, s1) =
     (if s < n \<and> s1 < n \<and> checkDifferentSmall eps 0 (t s a s1) then Some (t s a s1) else None)"
  unfolding fillAction_def makeCompressed_def
  by (simp add: fold_insert_rows[where f = "\<lambda>s s1. t s a s1" and c = "checkDifferentSmall eps 0"] setZero_def)

lemma dims_fillAction:
  "cols (fillAction eps t n a M) = cols M" "rows (fillAction eps t n a M) = rows M"
  unfolding fillAction_def makeCompressed_def
  by (simp_all add: fold_insert_rows_dims[where f = "\<lambda>s s1. t s a s1" and c = "checkDifferentSmall eps 0"] setZero_def)

lemma coeff_fillAction:
  "coeff (fillAction eps t n a M) s s1 =
     (if s < n \<and> s1 < n \<and> checkDifferentSmall eps 0 (t s a s1) then t s a s1 else 0)"
  by (simp add: coeff_def entries_fillAction)

lemma fold_actions:
  "n \<le> length (transitions m) \<Longrightarrow>
   S (fold (setTransitionAction eps t) [0..<n] m) = S m \<and>
   A (fold (setTransitionAction eps t) [0..<n] m) = A m \<and>
   discount (fold (setTransitionAction eps t) [0..<n] m) = discount m \<and>
   rewards (fold (setTransitionAction eps t) [0..<n] m) = rewards m \<and>
   rand (fold (setTransitionAction eps t) [0..<n] m) = rand m \<and>
   length (transitions (fold (setTransitionAction eps t) [0..<n] m)) = length (transitions m) \<and>
   (\<forall>a. transitions (fold (setTransitionAction eps t) [0..<n] m) ! a =
        (if a < n then fillAction eps t (S m) a (transitions m ! a) else transitions m ! a))"
proof (induction n)
  case 0
  then show ?case by simp
next
  case (Suc n)
  then show ?case
    by (auto simp: setTransitionAction_def nth_list_update)
qed

lemma setTransitionFunction_ok:
  assumes "isProbability eps (S m) (A m) (S m) t" "length (transitions m) = A m"
  shows "fst (setTransitionFunction eps t m) = None"
    "S (snd (setTransitionFunction eps t m)) = S m"
    "A (snd (setTransitionFunction eps t m)) = A m"
    "discount (snd (setTransitionFunction eps t m)) = discount m"
    "rewards (snd (setTransitionFunction eps t m)) = rewards m"
    "rand (snd (setTransitionFunction eps t m)) = rand m"
    "length (transitions (snd (setTransitionFunction eps t m))) = A m"
    "a < A m \<Longrightarrow> transitions (snd (setTransitionFunction eps t m)) ! a = fillAction eps t (S m) a (transitions m ! a)"
  using assms fold_actions[of "A m" m eps t]
  by (simp_all add: setTransitionFunction_def)

lemma setTransitionFunction_reads:
  assumes "isProbability eps (S m) (A m) (S m) t" "length (transitions m) = A m"
    and "s < S m" "a < A m" "s1 < S m"
  shows "getTransitionProbability (snd (setTransitionFunction eps t m)) s a s1 =
           (if \<bar>t s a s1\<bar> \<le> eps then 0 else t s a s1)"
  using assms
  by (simp add: getTransitionProbability_def setTransitionFunction_ok coeff_fillAction
      checkDifferentSmall_def checkEqualSmall_def)

lemma newRew_sum: "newRew r T n s a = (\<Sum>s1\<leftarrow>[0..<n]. r s a s1 * coeff T s s1)"
proof -
  have "fold (\<lambda>s1 acc. acc + f s1) xs z = z + sum_list (map f xs)" for f :: "nat \<Rightarrow> real" and xs z
    by (induction xs arbitrary: z) auto
  then show ?thesis by (simp add: newRew_def)
qed

lemma fold_set_col:
  "entries (fold (\<lambda>s R. let nr = f s in if c nr then coeffRef_set R s a nr else R) xs M) (i, j) =
     (if j = a \<and> i \<in> set xs \<and> c (f i) then Some (f i) else entries M (i, j))"
  by (induction xs arbitrary: M) (auto simp: coeffRef_set_def Let_def)

lemma fold_set_cols:
  "entries (fold (\<lambda>a. fold (\<lambda>s R. let nr = f s a in if c nr then coeffRef_set R s a nr else R) xs) ys M) (i, j) =
     (if j \<in> set ys \<and> i \<in> set xs \<and> c (f i j) then Some (f i j) else entries M (i, j))"
  by (induction ys arbitrary: M) (auto simp: fold_set_col)

lemma entries_setRewardFunction:
  "entries (rewards (setRewardFunction eps r m)) (s, a) =
     (if a < A m \<and> s < S m \<and> checkDifferentSmall eps (newRew r (transitions m ! a) (S m) s a) 0
      then Some (newRew r (transitions m ! a) (S m) s a) else None)"
  unfolding setRewardFunction_def makeCompressed_def
  by (simp add: fold_set_cols[where f = "\<lambda>s a. newRew r (transitions m ! a) (S m) s a"
        and c = "\<lambda>nr. checkDifferentSmall eps nr 0"] setZero_def)

lemma setRewardFunction_frame:
  "S (setRewardFunction eps r m) = S m" "A (setRewardFunction eps r m) = A m"
  "discount (setRewardFunction eps r m) = discount m"
  "transitions (setRewardFunction eps r m) = transitions m"
  "rand (setRewardFunction eps r m) = rand m"
  by (simp_all add: setRewardFunction_def)

lemma dense_ctor:
  assumes "isProbability eps n k n t" "0 \<le> d" "d \<le> 1"
  shows "SparseModel_dense eps seed n k t r d =
     Inr (setRewardFunction eps r (snd (setTransitionFunction eps t ((initModel seed n k)\<lparr>discount := d\<rparr>))))"
proof -
  let ?m1 = "(initModel seed n k)\<lparr>discount := d\<rparr>"
  have a: "setDiscount d (initModel seed n k) = (None, ?m1)"
    using assms by (simp add: setDiscount_def)
  have b: "S ?m1 = n" "A ?m1 = k" "length (transitions ?m1) = A ?m1" by (simp_all add: initModel_def)
  have "fst (setTransitionFunction eps t ?m1) = None"
    using setTransitionFunction_ok(1)[of eps ?m1 t] assms b by simp
  then obtain m2 where c: "setTransitionFunction eps t ?m1 = (None, m2)"
    by (metis prod.collapse)
  show ?thesis by (simp add: SparseModel_dense_def a c)
qed

subsection \<open>The copy constructor\<close>

lemma error_is: "(e :: error) = InvalidArgument"
  by (cases e) simp

lemma isl_InvalidArgument: "isl x \<longleftrightarrow> x = Inl InvalidArgument" for x :: "error + 'a"
  by (cases x) (simp_all add: error_is)

lemma rowRejected_iff:
  "rowRejected eps model s a \<longleftrightarrow>
     ((\<exists>s1<getS model. transitionProbability model s a s1 < 0 \<or> 1 < transitionProbability model s a s1)
      \<or> checkDifferentSmall eps 1 (\<Sum>s1\<leftarrow>[0..<getS model]. stored eps (transitionProbability model s a s1)))"
  by (simp add: rowRejected_def list_ex_iff Bex_def)

lemma forE_Inl: "forE xs body st = Inl e \<Longrightarrow> forE xs body st = Inl InvalidArgument"
  by (cases e) simp

lemma forE_append:
  "forE (xs @ ys) body st = (case forE xs body st of Inl e \<Rightarrow> Inl e | Inr st' \<Rightarrow> forE ys body st')"
  by (induction xs arbitrary: st) (auto split: sum.splits)

lemma forE_map: "forE (map f xs) body st = forE xs (\<lambda>x. body (f x)) st"
  by (induction xs arbitrary: st) (auto split: sum.splits)

lemma forE_product:
  "forE xs (\<lambda>x. forE ys (body x)) st = forE (List.product xs ys) (\<lambda>(x, y). body x y) st"
proof (induction xs arbitrary: st)
  case Nil
  then show ?case by simp
next
  case (Cons x xs)
  have "forE (map (Pair x) ys) (\<lambda>(x, y). body x y) st = forE ys (body x) st"
    by (simp add: forE_map)
  with Cons show ?case
    by (simp add: forE_append split: sum.splits)
qed

lemma forE_char:
  assumes "distinct xs" "set xs \<inter> Dinit = {}" "I Dinit st"
    and step: "\<And>x D st. x \<in> set xs \<Longrightarrow> x \<notin> D \<Longrightarrow> I D st \<Longrightarrow>
        (bad x \<longrightarrow> body x st = Inl InvalidArgument) \<and>
        (\<not> bad x \<longrightarrow> (\<exists>st'. body x st = Inr st' \<and> I (insert x D) st'))"
  shows "if \<exists>x\<in>set xs. bad x then forE xs body st = Inl InvalidArgument
         else \<exists>st'. forE xs body st = Inr st' \<and> I (Dinit \<union> set xs) st'"
  using assms
proof (induction xs arbitrary: Dinit st)
  case Nil
  then show ?case by simp
next
  case (Cons x xs)
  have xD: "x \<notin> Dinit" using Cons.prems(2) by auto
  show ?case
  proof (cases "bad x")
    case True
    then have "body x st = Inl InvalidArgument"
      using Cons.prems(4)[of x Dinit st] xD Cons.prems(3) by simp
    with True show ?thesis by simp
  next
    case False
    then obtain st1 where b: "body x st = Inr st1" and i: "I (insert x Dinit) st1"
      using Cons.prems(4)[of x Dinit st] xD Cons.prems(3) by auto
    have d: "distinct xs" "set xs \<inter> insert x Dinit = {}"
      using Cons.prems(1,2) by auto
    have "if \<exists>y\<in>set xs. bad y then forE xs body st1 = Inl InvalidArgument
         else \<exists>st'. forE xs body st1 = Inr st' \<and> I (insert x Dinit \<union> set xs) st'"
      by (rule Cons.IH[OF d i]) (use Cons.prems(4) in auto)
    with False b show ?thesis by (auto split: if_splits)
  qed
qed


lemma fold_add_coeff:
  "coeff (fold (\<lambda>x R. if c x then coeffRef_add R s a (v x) else R) xs R) i j =
     (if i = s \<and> j = a then coeff R s a + (\<Sum>x\<leftarrow>xs. if c x then v x else 0) else coeff R i j)"
  by (induction xs arbitrary: R) (auto simp: coeffRef_add_def coeff_def)

lemma fold_insert_coeff:
  "coeff (fold (\<lambda>x M. if c x then insert_coeff M s x (v x) else M) xs M) i j =
     (if i = s \<and> j \<in> set xs \<and> c j then v j else coeff M i j)"
  by (induction xs arbitrary: M) (auto simp: insert_coeff_def coeff_def)

lemma fold_insert_cols:
  "cols (fold (\<lambda>x M. if c x then insert_coeff M s x (v x) else M) xs M) = cols M"
  by (induction xs arbitrary: M) (auto simp: insert_coeff_def)

lemma copyTriple_step:
  "copyTriple eps model s a x (T, R) =
     (if transitionProbability model s a x < 0 \<or> 1 < transitionProbability model s a x
      then Inl InvalidArgument
      else Inr (if checkDifferentSmall eps 0 (transitionProbability model s a x)
                then T[a := insert_coeff (T ! a) s x (transitionProbability model s a x)] else T,
                if checkDifferentSmall eps 0 (expectedReward model s a x)
                then coeffRef_add R s a (expectedReward model s a x * transitionProbability model s a x)
                else R))"
  by (simp add: copyTriple_def Let_def)

lemma forE_copyTriple:
  assumes "a < length T"
  shows "forE xs (copyTriple eps model s a) (T, R) =
     (if \<exists>x\<in>set xs. transitionProbability model s a x < 0 \<or> 1 < transitionProbability model s a x
      then Inl InvalidArgument
      else Inr (T[a := fold (\<lambda>x M. if checkDifferentSmall eps 0 (transitionProbability model s a x)
                                  then insert_coeff M s x (transitionProbability model s a x) else M) xs (T ! a)],
                fold (\<lambda>x R'. if checkDifferentSmall eps 0 (expectedReward model s a x)
                              then coeffRef_add R' s a (expectedReward model s a x * transitionProbability model s a x)
                              else R') xs R))"
  using assms
proof (induction xs arbitrary: T R)
  case Nil
  then show ?case by simp
next
  case (Cons x xs)
  show ?case
    using Cons.prems
    by (simp add: copyTriple_step Cons.IH)
qed

lemma copyRow_step:
  assumes inv: "copyInv eps model D st" and a: "a < getA model" and nD: "(s, a) \<notin> D"
  shows "(rowRejected eps model s a \<longrightarrow> copyRow eps model (getS model) s a st = Inl InvalidArgument) \<and>
         (\<not> rowRejected eps model s a \<longrightarrow>
            (\<exists>st'. copyRow eps model (getS model) s a st = Inr st' \<and> copyInv eps model (insert (s, a) D) st'))"
proof -
  obtain T R where st: "st = (T, R)" by (cases st)
  let ?P = "transitionProbability model s a"
  let ?r = "expectedReward model s a"
  let ?n = "getS model"
  let ?M = "fold (\<lambda>x M. if checkDifferentSmall eps 0 (?P x) then insert_coeff M s x (?P x) else M) [0..<?n] (T ! a)"
  let ?R = "fold (\<lambda>x R'. if checkDifferentSmall eps 0 (?r x) then coeffRef_add R' s a (?r x * ?P x) else R') [0..<?n] R"
  have len: "length T = getA model" and aT: "a < length T"
    using inv a by (simp_all add: copyInv_def st)
  have colsT: "cols (T ! a) = ?n"
    using inv a by (simp add: copyInv_def st)
  have zero: "coeff (T ! a) s j = 0" for j
    using inv a nD by (simp add: copyInv_def st)
  have R0: "coeff R s a = 0"
    using inv nD by (simp add: copyInv_def st)
  have cM: "coeff ?M i j = (if i = s \<and> j < ?n \<and> checkDifferentSmall eps 0 (?P j) then ?P j else coeff (T ! a) i j)" for i j
    by (simp add: fold_insert_coeff)
  have rowM: "coeff ?M s j = (if j < ?n then stored eps (?P j) else 0)" for j
    by (simp add: cM zero stored_def)
  have colsM: "cols ?M = ?n"
    by (simp add: fold_insert_cols colsT)
  have sumM: "rowSum ?M s = (\<Sum>j\<leftarrow>[0..<?n]. stored eps (?P j))"
    unfolding rowSum_def colsM by (rule arg_cong[where f = sum_list]) (simp add: rowM)
  have cR: "coeff ?R i j = (if i = s \<and> j = a then copiedReward eps model s a else coeff R i j)" for i j
    by (simp add: fold_add_coeff R0 copiedReward_def)
  have loop: "forE [0..<?n] (copyTriple eps model s a) (T, R) =
     (if \<exists>x<?n. ?P x < 0 \<or> 1 < ?P x then Inl InvalidArgument else Inr (T[a := ?M], ?R))"
    using forE_copyTriple[OF aT, of "[0..<?n]" eps model s R] by simp
  show ?thesis
  proof (cases "\<exists>x<?n. ?P x < 0 \<or> 1 < ?P x")
    case True
    then show ?thesis
      by (simp add: copyRow_def st loop rowRejected_iff)
  next
    case False
    show ?thesis
    proof (cases "checkDifferentSmall eps 1 (\<Sum>j\<leftarrow>[0..<?n]. stored eps (?P j))")
      case True
      with False show ?thesis
        using aT by (simp add: copyRow_def st loop rowRejected_iff sumM)
    next
      case ok: False
      have res: "copyRow eps model ?n s a st = Inr (T[a := ?M], ?R)"
        using False ok aT by (simp add: copyRow_def st loop sumM)
      have i1: "cols (T[a := ?M] ! a') = ?n" if a': "a' < getA model" for a'
        using inv a' aT colsM by (cases "a' = a") (simp_all add: copyInv_def st)
      have i2: "coeff (T[a := ?M] ! a') s' s1 =
           (if (s', a') \<in> insert (s, a) D \<and> s1 < ?n
            then stored eps (transitionProbability model s' a' s1) else 0)"
        if a': "a' < getA model" for a' s' s1
      proof (cases "a' = a")
        case True
        have old: "coeff (T ! a) s' s1 = (if (s', a) \<in> D \<and> s1 < ?n
                   then stored eps (transitionProbability model s' a s1) else 0)"
          using inv a by (simp add: copyInv_def st)
        show ?thesis
        proof (cases "s' = s")
          case True
          with \<open>a' = a\<close> aT show ?thesis by (simp add: rowM)
        next
          case False
          with \<open>a' = a\<close> aT show ?thesis by (simp add: cM old)
        qed
      next
        case False
        with inv a' aT show ?thesis by (simp add: copyInv_def st)
      qed
      have i3: "coeff ?R s' a' = (if (s', a') \<in> insert (s, a) D then copiedReward eps model s' a' else 0)"
        for s' a'
        using inv by (auto simp: cR copyInv_def st)
      have "copyInv eps model (insert (s, a) D) (T[a := ?M], ?R)"
        unfolding copyInv_def using i1 i2 i3 len by simp
      with res False ok show ?thesis by (simp add: rowRejected_iff)
    qed
  qed
qed



lemma copyInv_init:
  "copyInv eps model {} (replicate (getA model) (emptyMatrix (getS model) (getS model)),
                         emptyMatrix (getS model) (getA model))"
  by (simp add: copyInv_def emptyMatrix_def coeff_def)

lemma copy_loops:
  "if \<exists>s<getS model. \<exists>a<getA model. rowRejected eps model s a
   then forE [0..<getS model] (\<lambda>s. forE [0..<getA model] (copyRow eps model (getS model) s)) 
          (replicate (getA model) (emptyMatrix (getS model) (getS model)),
           emptyMatrix (getS model) (getA model)) = Inl InvalidArgument
   else \<exists>st'. forE [0..<getS model] (\<lambda>s. forE [0..<getA model] (copyRow eps model (getS model) s)) 
          (replicate (getA model) (emptyMatrix (getS model) (getS model)),
           emptyMatrix (getS model) (getA model)) = Inr st'
        \<and> copyInv eps model ({0..<getS model} \<times> {0..<getA model}) st'"
proof -
  let ?xs = "List.product [0..<getS model] [0..<getA model]"
  let ?st = "(replicate (getA model) (emptyMatrix (getS model) (getS model)),
           emptyMatrix (getS model) (getA model))"
  have d: "distinct ?xs" by (simp add: distinct_product)
  have e: "set ?xs \<inter> {} = {}" by simp
  have step: "((case x of (s, a) \<Rightarrow> rowRejected eps model s a) \<longrightarrow>
          (case x of (s, a) \<Rightarrow> copyRow eps model (getS model) s a) st = Inl InvalidArgument) \<and>
        (\<not> (case x of (s, a) \<Rightarrow> rowRejected eps model s a) \<longrightarrow>
          (\<exists>st'. (case x of (s, a) \<Rightarrow> copyRow eps model (getS model) s a) st = Inr st'
              \<and> copyInv eps model (insert x D) st'))"
    if "x \<in> set ?xs" "x \<notin> D" "copyInv eps model D st" for x D st
  proof -
    obtain s a where x: "x = (s, a)" by (cases x)
    have "a < getA model" using that(1) x by simp
    then show ?thesis
      using copyRow_step[of eps model D st a s] that x by simp
  qed
  have "if \<exists>x\<in>set ?xs. (case x of (s, a) \<Rightarrow> rowRejected eps model s a)
        then forE ?xs (\<lambda>(s, a). copyRow eps model (getS model) s a) ?st = Inl InvalidArgument
        else \<exists>st'. forE ?xs (\<lambda>(s, a). copyRow eps model (getS model) s a) ?st = Inr st'
              \<and> copyInv eps model ({} \<union> set ?xs) st'"
    by (rule forE_char[where I = "copyInv eps model" and Dinit = "{}"
          and bad = "\<lambda>(s, a). rowRejected eps model s a"
          and body = "\<lambda>(s, a). copyRow eps model (getS model) s a", OF d e copyInv_init])
       (use step in blast)
  moreover have "(\<exists>x\<in>set ?xs. (case x of (s, a) \<Rightarrow> rowRejected eps model s a))
      \<longleftrightarrow> (\<exists>s<getS model. \<exists>a<getA model. rowRejected eps model s a)"
    by (simp add: Bex_def)
  moreover have "{} \<union> set ?xs = {0..<getS model} \<times> {0..<getA model}" by auto
  ultimately show ?thesis
    by (simp only: forE_product)
qed

lemma SparseModel_copy_fails:
  "SparseModel_copy eps seed model = Inl InvalidArgument \<longleftrightarrow>
     (getDiscount model < 0 \<or> 1 < getDiscount model
      \<or> (\<exists>s<getS model. \<exists>a<getA model. rowRejected eps model s a))"
  using copy_loops[of model eps]
  by (auto simp: SparseModel_copy_def setDiscount_def initModel_def split: if_splits)

lemma SparseModel_copy_result:
  assumes "SparseModel_copy eps seed model = Inr m'"
  shows "S m' = getS model" "A m' = getA model" "discount m' = getDiscount model" "rand m' = seed"
    "length (transitions m') = getA model"
    "s < getS model \<Longrightarrow> a < getA model \<Longrightarrow> s1 < getS model \<Longrightarrow>
       getTransitionProbability m' s a s1 = stored eps (transitionProbability model s a s1)"
    "a < getA model \<Longrightarrow> cols (transitions m' ! a) = getS model"
    "s < getS model \<Longrightarrow> a < getA model \<Longrightarrow>
       getExpectedReward m' s a s1 = copiedReward eps model s a"
proof -
  let ?st = "(replicate (getA model) (emptyMatrix (getS model) (getS model)),
           emptyMatrix (getS model) (getA model))"
  let ?m1 = "(initModel seed (getS model) (getA model))\<lparr>discount := getDiscount model\<rparr>"
  have nf: "\<not> (getDiscount model < 0 \<or> 1 < getDiscount model
      \<or> (\<exists>s<getS model. \<exists>a<getA model. rowRejected eps model s a))"
    using SparseModel_copy_fails[of eps seed model] assms by simp
  then obtain T R where
    loop: "forE [0..<getS model] (\<lambda>s. forE [0..<getA model] (copyRow eps model (getS model) s)) ?st = Inr (T, R)"
    and inv: "copyInv eps model ({0..<getS model} \<times> {0..<getA model}) (T, R)"
    using copy_loops[of model eps] by (auto split: if_splits)
  have m': "m' = ?m1\<lparr>transitions := map makeCompressed T, rewards := makeCompressed R\<rparr>"
    using assms nf loop by (simp add: SparseModel_copy_def setDiscount_def initModel_def)
  show "S m' = getS model" "A m' = getA model" "discount m' = getDiscount model" "rand m' = seed"
    by (simp_all add: m' initModel_def)
  show "length (transitions m') = getA model"
    using inv by (simp add: m' copyInv_def)
  show "getTransitionProbability m' s a s1 = stored eps (transitionProbability model s a s1)"
    if "s < getS model" "a < getA model" "s1 < getS model"
    using inv that
    by (simp add: m' copyInv_def getTransitionProbability_def makeCompressed_def)
  show "cols (transitions m' ! a) = getS model" if "a < getA model"
    using inv that by (simp add: m' copyInv_def makeCompressed_def)
  show "getExpectedReward m' s a s1 = copiedReward eps model s a"
    if "s < getS model" "a < getA model"
    using inv that by (simp add: m' copyInv_def getExpectedReward_def makeCompressed_def)
qed

lemma copyRejected_iff:
  "copyRejected eps model \<longleftrightarrow>
     (getDiscount model < 0 \<or> 1 < getDiscount model
      \<or> (\<exists>s<getS model. \<exists>a<getA model. rowRejected eps model s a))"
  by (simp add: copyRejected_def list_ex_iff Bex_def)

lemma copy_exists:
  "\<not> isl (SparseModel_copy eps seed model) \<Longrightarrow> \<exists>m'. SparseModel_copy eps seed model = Inr m'"
  by (cases "SparseModel_copy eps seed model") simp_all

subsection \<open>Rows as probability laws\<close>

lemma sum_list_diff_bound:
  fixes f g :: "'a \<Rightarrow> real"
  assumes "\<And>x. x \<in> set xs \<Longrightarrow> \<bar>f x - g x\<bar> \<le> e"
  shows "\<bar>sum_list (map f xs) - sum_list (map g xs)\<bar> \<le> real (length xs) * e"
  using assms
proof (induction xs)
  case Nil
  then show ?case by simp
next
  case (Cons x xs)
  have "\<bar>f x - g x\<bar> \<le> e" using Cons.prems by simp
  moreover have "\<bar>sum_list (map f xs) - sum_list (map g xs)\<bar> \<le> real (length xs) * e"
    using Cons by simp
  ultimately show ?case by (simp add: algebra_simps)
qed

lemma stored_bounds:
  assumes "0 \<le> p" "p \<le> 1"
  shows "0 \<le> stored eps p" "stored eps p \<le> 1"
  using assms by (simp_all add: stored_def)

lemma stored_close:
  assumes "0 \<le> eps"
  shows "\<bar>stored eps p - p\<bar> \<le> eps"
  using assms by (simp add: stored_def checkDifferentSmall_def checkEqualSmall_def)

lemma simplexWithin_iff:
  "simplexWithin tol m s a \<longleftrightarrow>
     ((\<forall>s1<S m. 0 \<le> getTransitionProbability m s a s1 \<and> getTransitionProbability m s a s1 \<le> 1)
      \<and> \<bar>(\<Sum>s1\<leftarrow>[0..<S m]. getTransitionProbability m s a s1) - 1\<bar> \<le> tol)"
  by (simp add: simplexWithin_def list_all_iff Ball_def)

lemma validModel_iff:
  "validModel eps m \<longleftrightarrow>
     (0 \<le> discount m \<and> discount m \<le> 1 \<and> length (transitions m) = A m
      \<and> (\<forall>s<S m. \<forall>a<A m. simplexWithin eps m s a))"
  by (simp add: validModel_def list_all_iff Ball_def)

lemma dense_simplex:
  assumes v: "isProbability eps (S m) (A m) (S m) t" and l: "length (transitions m) = A m"
    and s: "s < S m" and a: "a < A m"
  shows "simplexWithin ((real (S m) + 1) * eps) (snd (setTransitionFunction eps t m)) s a"
proof -
  let ?m' = "snd (setTransitionFunction eps t m)"
  have e: "0 \<le> eps" using isProbability_eps[OF v s a] .
  have Sm: "S ?m' = S m" using setTransitionFunction_ok(2)[OF v l] .
  have rd: "getTransitionProbability ?m' s a s1 = stored eps (t s a s1)" if "s1 < S m" for s1
    using setTransitionFunction_reads[OF v l s a that]
    by (simp add: stored_def checkDifferentSmall_def checkEqualSmall_def)
  have rng: "0 \<le> t s a s1 \<and> t s a s1 \<le> 1" if "s1 < S m" for s1
    using v s a that unfolding isProbability_iff by blast
  have tot: "\<bar>sum_list (map (t s a) [0..<S m]) - 1\<bar> \<le> eps"
    using v s a unfolding isProbability_iff by blast
  have 1: "list_all (\<lambda>s1. 0 \<le> getTransitionProbability ?m' s a s1
                \<and> getTransitionProbability ?m' s a s1 \<le> 1) [0..<S ?m']"
    unfolding Sm using rd rng stored_bounds by (simp add: list_all_iff)
  have eq: "map (getTransitionProbability ?m' s a) [0..<S m] = map (\<lambda>s1. stored eps (t s a s1)) [0..<S m]"
    using rd by simp
  have "\<bar>sum_list (map (\<lambda>s1. stored eps (t s a s1)) [0..<S m]) - sum_list (map (t s a) [0..<S m])\<bar>
          \<le> real (length [0..<S m]) * eps"
    by (rule sum_list_diff_bound) (simp add: stored_close[OF e])
  with tot have "\<bar>sum_list (map (\<lambda>s1. stored eps (t s a s1)) [0..<S m]) - 1\<bar> \<le> (real (S m) + 1) * eps"
    by (simp add: algebra_simps)
  with 1 show ?thesis
    unfolding simplexWithin_def Sm eq by simp
qed

lemma copy_simplex:
  assumes c: "SparseModel_copy eps seed model = Inr mc" and s: "s < getS model" and a: "a < getA model"
  shows "simplexWithin eps mc s a"
proof -
  have nf: "\<not> rowRejected eps model s a"
    using SparseModel_copy_fails[of eps seed model] c s a by auto
  have Sm: "S mc = getS model" using SparseModel_copy_result(1)[OF c] .
  have rd: "getTransitionProbability mc s a s1 = stored eps (transitionProbability model s a s1)"
    if "s1 < getS model" for s1
    using SparseModel_copy_result(6)[OF c s a that] .
  have rng: "0 \<le> transitionProbability model s a s1 \<and> transitionProbability model s a s1 \<le> 1"
    if "s1 < getS model" for s1
    using nf that unfolding rowRejected_iff by (meson not_le)
  have eq: "map (getTransitionProbability mc s a) [0..<getS model]
      = map (\<lambda>s1. stored eps (transitionProbability model s a s1)) [0..<getS model]"
    using rd by simp
  have 1: "list_all (\<lambda>s1. 0 \<le> getTransitionProbability mc s a s1
                \<and> getTransitionProbability mc s a s1 \<le> 1) [0..<S mc]"
    unfolding Sm using rd rng stored_bounds by (simp add: list_all_iff)
  have "\<bar>(\<Sum>s1\<leftarrow>[0..<getS model]. stored eps (transitionProbability model s a s1)) - 1\<bar> \<le> eps"
    using nf unfolding rowRejected_iff checkDifferentSmall_def checkEqualSmall_def
    by (simp add: abs_minus_commute)
  with 1 show ?thesis
    unfolding simplexWithin_def Sm eq by simp
qed

subsection \<open>The sampler\<close>

lemma firstExceeding_Some:
  "firstExceeding u (sum_list (map p [0..<i])) p (filter (\<lambda>j. p j \<noteq> 0) [i..<n]) = Some s1 \<Longrightarrow>
     i \<le> s1 \<and> s1 < n \<and> p s1 \<noteq> 0 \<and> u < cumulative p s1
     \<and> (\<forall>j. i \<le> j \<and> j < s1 \<and> p j \<noteq> 0 \<longrightarrow> cumulative p j \<le> u)"
proof (induction "n - i" arbitrary: i)
  case 0
  then show ?case by simp
next
  case (Suc d)
  then have lt: "i < n" and d: "d = n - Suc i" by simp_all
  have up: "[i..<n] = i # [Suc i..<n]" using lt by (simp add: upt_conv_Cons)
  let ?rest = "firstExceeding u (sum_list (map p [0..<Suc i])) p (filter (\<lambda>j. p j \<noteq> 0) [Suc i..<n])"
  show ?case
  proof (cases "p i \<noteq> 0 \<and> u < sum_list (map p [0..<i]) + p i")
    case True
    then have "s1 = i" using Suc.prems by (simp add: up)
    then show ?thesis using True lt by (simp add: cumulative_def)
  next
    case False
    then have r: "?rest = Some s1" using Suc.prems by (cases "p i = 0") (simp_all add: up)
    note IH = Suc.hyps(1)[OF d r]
    have "cumulative p j \<le> u" if "i \<le> j" "j < s1" "p j \<noteq> 0" for j
    proof (cases "j = i")
      case True
      then show ?thesis using False that by (simp add: cumulative_def)
    next
      case False
      then have "Suc i \<le> j" using that by simp
      then show ?thesis using IH that by blast
    qed
    moreover have "i \<le> s1" using IH by simp
    ultimately show ?thesis using IH by blast
  qed
qed

lemma firstExceeding_None:
  "firstExceeding u (sum_list (map p [0..<i])) p (filter (\<lambda>j. p j \<noteq> 0) [i..<n]) = None \<Longrightarrow>
     i \<le> j \<Longrightarrow> j < n \<Longrightarrow> p j \<noteq> 0 \<Longrightarrow> cumulative p j \<le> u"
proof (induction "n - i" arbitrary: i)
  case 0
  then show ?case by simp
next
  case (Suc d)
  then have lt: "i < n" and d: "d = n - Suc i" by simp_all
  have up: "[i..<n] = i # [Suc i..<n]" using lt by (simp add: upt_conv_Cons)
  let ?rest = "firstExceeding u (sum_list (map p [0..<Suc i])) p (filter (\<lambda>j. p j \<noteq> 0) [Suc i..<n])"
  have nx: "\<not> (p i \<noteq> 0 \<and> u < sum_list (map p [0..<i]) + p i)"
    using Suc.prems(1) by (cases "p i = 0") (simp_all add: up split: if_splits)
  then have r: "?rest = None" using Suc.prems(1) by (cases "p i = 0") (simp_all add: up)
  show ?case
  proof (cases "j = i")
    case True
    then show ?thesis using nx Suc.prems(4) by (simp add: cumulative_def)
  next
    case False
    then have "Suc i \<le> j" using Suc.prems(2) by simp
    then show ?thesis using Suc.hyps(1)[OF d r _ Suc.prems(3,4)] by simp
  qed
qed

lemma last_filter_upt:
  "filter P [0..<n] \<noteq> [] \<Longrightarrow>
     last (filter P [0..<n]) < n \<and> P (last (filter P [0..<n]))
     \<and> (\<forall>j<n. last (filter P [0..<n]) < j \<longrightarrow> \<not> P j)"
proof (induction n)
  case 0
  then show ?case by simp
next
  case (Suc n)
  show ?case
  proof (cases "P n")
    case True
    then have l: "last (filter P [0..<Suc n]) = n" by simp
    have "n < Suc n \<and> P n \<and> (\<forall>j<Suc n. n < j \<longrightarrow> \<not> P j)"
      using True by auto
    then show ?thesis unfolding l .
  next
    case False
    then have eq: "filter P [0..<Suc n] = filter P [0..<n]" by simp
    then have ne: "filter P [0..<n] \<noteq> []" using Suc.prems by simp
    define k where "k = last (filter P [0..<n])"
    have "k < n \<and> P k \<and> (\<forall>j<n. k < j \<longrightarrow> \<not> P j)"
      using Suc.IH[OF ne] unfolding k_def .
    then have "k < Suc n \<and> P k \<and> (\<forall>j<Suc n. k < j \<longrightarrow> \<not> P j)"
      using False by (auto simp: less_Suc_eq)
    then show ?thesis unfolding eq k_def .
  qed
qed

lemma sum_list_all_zero:
  "(\<And>x. x \<in> set xs \<Longrightarrow> f x = (0::real)) \<Longrightarrow> sum_list (map f xs) = 0"
  by (induction xs) simp_all

section \<open>The claims\<close>

text \<open>
  C1. A model produced or changed through a validated entry point has rows that are
  probability laws: every \<open>getTransitionProbability(s, a, s1)\<close> lies in [0,1], and the
  sum over the successors is within the tolerance of 1 after the copy constructor, and
  within (S + 1) times the tolerance of 1 after the dense \<open>setTransitionFunction\<close> and
  the dense constructor, which validate the container before the values below the
  tolerance are dropped. The model given to the setter holds A tables, as every
  constructor leaves it.
\<close>

theorem validated_entry_points_simplex:
  "(isProbability eps (S m) (A m) (S m) t \<and> length (transitions m) = A m \<and> s < S m \<and> a < A m
      \<longrightarrow> simplexWithin ((real (S m) + 1) * eps) (snd (setTransitionFunction eps t m)) s a)
   \<and> (isProbability eps n k n t \<and> 0 \<le> d \<and> d \<le> 1 \<and> s < n \<and> a < k
      \<longrightarrow> (\<exists>m'. SparseModel_dense eps seed n k t r d = Inr m'
              \<and> simplexWithin ((real n + 1) * eps) m' s a))
   \<and> (SparseModel_copy eps seed model = Inr mc \<and> s < getS model \<and> a < getA model
      \<longrightarrow> simplexWithin eps mc s a)"
proof (intro conjI impI)
  assume "isProbability eps (S m) (A m) (S m) t \<and> length (transitions m) = A m \<and> s < S m \<and> a < A m"
  then show "simplexWithin ((real (S m) + 1) * eps) (snd (setTransitionFunction eps t m)) s a"
    using dense_simplex by blast
next
  assume h: "isProbability eps n k n t \<and> 0 \<le> d \<and> d \<le> 1 \<and> s < n \<and> a < k"
  let ?m1 = "(initModel seed n k)\<lparr>discount := d\<rparr>"
  let ?m2 = "snd (setTransitionFunction eps t ?m1)"
  have b: "S ?m1 = n" "A ?m1 = k" "length (transitions ?m1) = A ?m1" by (simp_all add: initModel_def)
  have "simplexWithin ((real (S ?m1) + 1) * eps) ?m2 s a"
    by (rule dense_simplex) (use h b in simp_all)
  then have "simplexWithin ((real n + 1) * eps) (setRewardFunction eps r ?m2) s a"
    by (simp add: simplexWithin_def getTransitionProbability_def setRewardFunction_frame b)
  then show "\<exists>m'. SparseModel_dense eps seed n k t r d = Inr m' \<and> simplexWithin ((real n + 1) * eps) m' s a"
    using dense_ctor[of eps n k t d seed r] h by simp
next
  assume "SparseModel_copy eps seed model = Inr mc \<and> s < getS model \<and> a < getA model"
  then show "simplexWithin eps mc s a" using copy_simplex by blast
qed

text \<open>
  The three entry points at the 3/10, 7/10 rows.
\<close>

theorem validated_entry_points_simplex_witness:
  "simplexWithin (3/1000000) (snd (setTransitionFunction (1/1000000) t37 (initModel 0 2 1))) 0 0
   \<and> (\<exists>m'. SparseModel_dense (1/1000000) 0 2 1 t37 rEx (9/10) = Inr m'
           \<and> simplexWithin (3/1000000) m' 0 0)
   \<and> (\<exists>mc. SparseModel_copy (1/1000000) 0 srcOk = Inr mc \<and> simplexWithin (1/1000000) mc 0 0)"
proof -
  let ?m = "initModel 0 2 1"
  have v: "isProbability (1/1000000) 2 1 2 t37" by code_simp
  have d: "S ?m = 2" "A ?m = 1" "getS srcOk = 2" "getA srcOk = 1"
    by (simp_all add: initModel_def srcOk_def)
  have h1: "isProbability (1/1000000) (S ?m) (A ?m) (S ?m) t37" using v by (simp only: d)
  have h2: "length (transitions ?m) = A ?m" by (simp add: initModel_def)
  have h3: "(0::nat) < S ?m" "(0::nat) < A ?m" "(0::nat) < 2" "(0::nat) < 1"
    "(0::nat) < getS srcOk" "(0::nat) < getA srcOk" "(0::real) \<le> 9/10" "(9/10::real) \<le> 1"
    by (simp_all add: initModel_def srcOk_def)
  have "\<not> isl (SparseModel_copy (1/1000000) 0 srcOk)" by code_simp
  then obtain mc where c: "SparseModel_copy (1/1000000) 0 srcOk = Inr mc"
    using copy_exists by blast
  have e: "(real (S ?m) + 1) * (1/1000000) = 3/1000000" "(real 2 + 1) * (1/1000000 :: real) = 3/1000000"
    by (simp_all add: initModel_def)
  show ?thesis
    using validated_entry_points_simplex[where eps = "1/1000000" and m = ?m and t = t37
        and s = 0 and a = 0 and n = 2 and k = 1 and d = "9/10" and seed = 0 and r = rEx
        and model = srcOk and mc = mc] v h1 h2 h3 c
    unfolding e by blast
qed

text \<open>
  With the tolerance itself as the bound the dense setter falls short: the row
  (8e-7, 1 - 16e-7) sums to 1 - 8e-7 and is accepted, its first value is dropped, and the
  stored row sums to 1 - 16e-7.
\<close>

theorem validated_entry_points_simplex_counterexample:
  "isProbability (1/1000000) 2 1 2 ceDense
   \<and> fst (setTransitionFunction (1/1000000) ceDense (initModel 0 2 1)) = None
   \<and> \<not> simplexWithin (1/1000000) (snd (setTransitionFunction (1/1000000) ceDense (initModel 0 2 1))) 0 0"
  by code_simp

text \<open>
  C2. The copy constructor throws \<open>InvalidArgument\<close> exactly when the discount of the
  source lies outside [0,1], or some probability read from the source lies outside
  [0,1], or the stored total of some (state, action) row, the sum of its
  probabilities above the tolerance, differs from 1 by more than the tolerance.
  Otherwise it returns a model. The range check of a triple fails whatever the tables
  hold at that point.
\<close>

theorem SparseModel_copy_raises_iff:
  "(SparseModel_copy eps seed model = Inl InvalidArgument \<longleftrightarrow> copyRejected eps model)
   \<and> (\<not> copyRejected eps model \<longrightarrow> (\<exists>m'. SparseModel_copy eps seed model = Inr m'))
   \<and> (copyTriple eps model s a s1 st = Inl InvalidArgument \<longleftrightarrow>
        transitionProbability model s a s1 < 0 \<or> 1 < transitionProbability model s a s1)"
proof (intro conjI impI)
  show 1: "SparseModel_copy eps seed model = Inl InvalidArgument \<longleftrightarrow> copyRejected eps model"
    by (simp add: SparseModel_copy_fails copyRejected_iff)
  show "\<exists>m'. SparseModel_copy eps seed model = Inr m'" if "\<not> copyRejected eps model"
    using that 1 by (cases "SparseModel_copy eps seed model") (simp_all add: error_is)
  show "copyTriple eps model s a s1 st = Inl InvalidArgument \<longleftrightarrow>
        transitionProbability model s a s1 < 0 \<or> 1 < transitionProbability model s a s1"
    by (cases st) (simp add: copyTriple_step)
qed

text \<open>
  The source with rows 3/10, 7/10 and discount 9/10 is accepted.
\<close>

theorem SparseModel_copy_raises_iff_witness:
  "\<not> copyRejected (1/1000000) srcOk \<and> (\<exists>m'. SparseModel_copy (1/1000000) 0 srcOk = Inr m')"
proof -
  have h: "\<not> copyRejected (1/1000000) srcOk" by code_simp
  show ?thesis
    using SparseModel_copy_raises_iff[of "1/1000000" 0 srcOk 0 0 0 "([], emptyMatrix 0 0)"] h by blast
qed

text \<open>
  Two sources whose every row has its probabilities in [0,1] and summing to 1: one
  has the single probability 1 and the discount 2, the other has the rows
  (6e-7, 6e-7, 1 - 12e-7). The constructor throws on both: on the first for the
  discount, on the second because the stored row, without the two small values, sums
  to 1 - 12e-7.
\<close>

theorem SparseModel_copy_raises_iff_counterexample:
  "(getS srcBadDiscount = 1 \<and> getA srcBadDiscount = 1
    \<and> sourceRowOk (1/1000000) srcBadDiscount 0 0
    \<and> \<not> rowRejected (1/1000000) srcBadDiscount 0 0
    \<and> SparseModel_copy (1/1000000) 0 srcBadDiscount = Inl InvalidArgument)
   \<and> (getS srcTiny = 3 \<and> getA srcTiny = 1 \<and> getDiscount srcTiny = 1
    \<and> sourceRowOk (1/1000000) srcTiny 0 0
    \<and> sourceRowOk (1/1000000) srcTiny 1 0
    \<and> sourceRowOk (1/1000000) srcTiny 2 0
    \<and> SparseModel_copy (1/1000000) 0 srcTiny = Inl InvalidArgument)"
proof -
  have "isl (SparseModel_copy (1/1000000) 0 srcBadDiscount)" by code_simp
  then have 1: "SparseModel_copy (1/1000000) 0 srcBadDiscount = Inl InvalidArgument"
    by (simp add: isl_InvalidArgument)
  have "isl (SparseModel_copy (1/1000000) 0 srcTiny)" by code_simp
  then have 2: "SparseModel_copy (1/1000000) 0 srcTiny = Inl InvalidArgument"
    by (simp add: isl_InvalidArgument)
  have 3: "getS srcBadDiscount = 1 \<and> getA srcBadDiscount = 1
    \<and> sourceRowOk (1/1000000) srcBadDiscount 0 0
    \<and> \<not> rowRejected (1/1000000) srcBadDiscount 0 0"
    by code_simp
  have 4: "getS srcTiny = 3 \<and> getA srcTiny = 1 \<and> getDiscount srcTiny = 1
    \<and> sourceRowOk (1/1000000) srcTiny 0 0
    \<and> sourceRowOk (1/1000000) srcTiny 1 0
    \<and> sourceRowOk (1/1000000) srcTiny 2 0"
    by code_simp
  show ?thesis using 1 2 3 4 by blast
qed

text \<open>
  C3. In the conversion the product \<open>r * p\<close> of a triple is added to the reward entry
  of (s, a) if and only if \<open>r\<close>, the reward the source reports for the triple, differs
  from 0 by more than the tolerance; the entry of the finished model is the sum of the
  products over those successors.
\<close>

theorem copy_reward_guard:
  "(copyTriple eps model s a s1 (T, R) = Inr (T', R') \<longrightarrow>
      R' = (if eps < \<bar>expectedReward model s a s1\<bar>
            then coeffRef_add R s a (expectedReward model s a s1 * transitionProbability model s a s1)
            else R))
   \<and> (SparseModel_copy eps seed model = Inr m' \<and> s < getS model \<and> a < getA model \<longrightarrow>
        getExpectedReward m' s a s1 =
          (\<Sum>x\<leftarrow>[0..<getS model].
             if eps < \<bar>expectedReward model s a x\<bar>
             then expectedReward model s a x * transitionProbability model s a x else 0))"
proof (intro conjI impI)
  assume "copyTriple eps model s a s1 (T, R) = Inr (T', R')"
  then show "R' = (if eps < \<bar>expectedReward model s a s1\<bar>
            then coeffRef_add R s a (expectedReward model s a s1 * transitionProbability model s a s1)
            else R)"
    by (auto simp: copyTriple_step checkDifferentSmall_def checkEqualSmall_def split: if_splits)
next
  assume h: "SparseModel_copy eps seed model = Inr m' \<and> s < getS model \<and> a < getA model"
  then have "getExpectedReward m' s a s1 = copiedReward eps model s a"
    using SparseModel_copy_result(8) by blast
  then show "getExpectedReward m' s a s1 =
          (\<Sum>x\<leftarrow>[0..<getS model].
             if eps < \<bar>expectedReward model s a x\<bar>
             then expectedReward model s a x * transitionProbability model s a x else 0)"
    by (simp add: copiedReward_def checkDifferentSmall_def checkEqualSmall_def not_le)
qed

text \<open>
  The source with rewards 10, 20 on the rows 3/10, 7/10 ends with the reward 17.
\<close>

theorem copy_reward_guard_witness:
  "\<exists>m'. SparseModel_copy (1/1000000) 0 srcOk = Inr m' \<and> getExpectedReward m' 0 0 0 = 17"
proof -
  have "\<not> isl (SparseModel_copy (1/1000000) 0 srcOk)" by code_simp
  then obtain m' where c: "SparseModel_copy (1/1000000) 0 srcOk = Inr m'"
    using copy_exists by blast
  have h: "(0::nat) < getS srcOk" "(0::nat) < getA srcOk" by (simp_all add: srcOk_def)
  have v: "(\<Sum>x\<leftarrow>[0..<getS srcOk].
             if 1/1000000 < \<bar>expectedReward srcOk 0 0 x\<bar>
             then expectedReward srcOk 0 0 x * transitionProbability srcOk 0 0 x else 0) = 17"
    by code_simp
  have "getExpectedReward m' 0 0 0 = 17"
    using copy_reward_guard[where eps = "1/1000000" and seed = 0 and model = srcOk and m' = m'
        and s = 0 and a = 0 and ?s1.0 = 0 and T = "[]" and R = "emptyMatrix 0 0" and T' = "[]"
        and R' = "emptyMatrix 0 0"] c h v
    by simp
  with c show ?thesis by blast
qed

text \<open>
  The guard does not read the product: with \<open>r = 1\<close> and \<open>p = 5e-7\<close> the product is
  within the tolerance of 0 and is added all the same, so the entry is 5e-7 where the
  guard on the product would leave 0.
\<close>

theorem copy_reward_guard_counterexample:
  "\<not> isl (SparseModel_copy (1/1000000) 0 srcNegligible)
   \<and> getExpectedReward (projr (SparseModel_copy (1/1000000) 0 srcNegligible)) 0 0 0 = 5/10000000
   \<and> \<not> checkDifferentSmall (1/1000000) 0
         (expectedReward srcNegligible 0 0 0 * transitionProbability srcNegligible 0 0 0)
   \<and> claimedReward (1/1000000) srcNegligible 0 0 = 0"
  by code_simp

text \<open>
  C4. A dense container that fails the validation, because a value lies outside [0,1]
  or because a (state, action) row sums to something further from 1 than the
  tolerance, makes \<open>setTransitionFunction\<close> throw \<open>InvalidArgument\<close> and leaves the
  whole model (transition table, reward table, S, A, discount) as it was.
\<close>

theorem setTransitionFunction_invalid_unchanged:
  assumes "(\<exists>s<S m. \<exists>a<A m. \<exists>s1<S m. t s a s1 < 0 \<or> 1 < t s a s1)
         \<or> (\<exists>s<S m. \<exists>a<A m. eps < \<bar>sum_list (map (t s a) [0..<S m]) - 1\<bar>)"
  shows "setTransitionFunction eps t m = (Some InvalidArgument, m)"
proof -
  from assms have "\<not> isProbability eps (S m) (A m) (S m) t"
    unfolding isProbability_iff by (metis not_le)
  then show ?thesis by (simp add: setTransitionFunction_def)
qed

text \<open>
  A container whose rows sum to 1/2 is refused, and the two-state model it was offered
  to is returned as it was.
\<close>

theorem setTransitionFunction_invalid_unchanged_witness:
  "setTransitionFunction (1/1000000) tHalf (initModel 0 2 1) = (Some InvalidArgument, initModel 0 2 1)"
proof -
  have "S (initModel 0 2 1) = 2" "A (initModel 0 2 1) = 1" by (simp_all add: initModel_def)
  moreover have "(1/1000000 :: real) < \<bar>sum_list (map (tHalf 0 0) [0..<2]) - 1\<bar>" by code_simp
  ultimately have "\<exists>s<S (initModel 0 2 1). \<exists>a<A (initModel 0 2 1).
        (1/1000000 :: real) < \<bar>sum_list (map (tHalf s a) [0..<S (initModel 0 2 1)]) - 1\<bar>"
    by (metis zero_less_numeral zero_less_one)
  then show ?thesis
    using setTransitionFunction_invalid_unchanged[of "initModel 0 2 1" tHalf "1/1000000"] by blast
qed

text \<open>
  C6. \<open>setRewardFunction\<close> stores at (s, a) the sum over the successors of
  \<open>r[s][a][s1]\<close> times the transition probability the model holds when it is called;
  the entry is left absent, so it reads 0, when that sum is within the tolerance of 0.
  The function has no failure and leaves the transition table alone.
\<close>

theorem setRewardFunction_expectation:
  assumes "s < S m" "a < A m"
  shows "getExpectedReward (setRewardFunction eps r m) s a s1 =
           (let v = (\<Sum>x\<leftarrow>[0..<S m]. r s a x * getTransitionProbability m s a x)
            in if \<bar>v\<bar> \<le> eps then 0 else v)
       \<and> (entries (rewards (setRewardFunction eps r m)) (s, a) = None \<longleftrightarrow>
            \<bar>\<Sum>x\<leftarrow>[0..<S m]. r s a x * getTransitionProbability m s a x\<bar> \<le> eps)
       \<and> transitions (setRewardFunction eps r m) = transitions m"
  using assms
  by (auto simp: getExpectedReward_def coeff_def entries_setRewardFunction newRew_sum
      getTransitionProbability_def checkDifferentSmall_def checkEqualSmall_def Let_def
      setRewardFunction_frame)

text \<open>
  The rewards 10, 20 on the stored row 3/10, 7/10 give 17.
\<close>

theorem setRewardFunction_expectation_witness:
  "getExpectedReward (setRewardFunction (1/1000000) rEx model37) 0 0 0 = 17"
proof -
  have h1: "0 < S model37" by code_simp
  have h2: "0 < A model37" by code_simp
  have v: "(\<Sum>x\<leftarrow>[0..<S model37]. rEx 0 0 x * getTransitionProbability model37 0 0 x) = 17"
    by code_simp
  show ?thesis
    using setRewardFunction_expectation[OF h1 h2, of "1/1000000" rEx 0] v by simp
qed

text \<open>
  C7. Loading a valid dense container with \<open>setTransitionFunction\<close>, or constructing
  a model from it, and reading every triple back gives a value within the tolerance of
  the original: 0 where the original is within the tolerance of 0, the original
  itself elsewhere. The model given to the setter holds A tables, as every constructor
  leaves it.
\<close>

theorem dense_roundtrip:
  assumes "isProbability eps (S m) (A m) (S m) t" "length (transitions m) = A m"
    and "s < S m" "a < A m" "s1 < S m"
  shows "(case setTransitionFunction eps t m of
            (e, m') \<Rightarrow> e = None \<and> dense_reads_back eps t m' s a s1)
       \<and> (0 \<le> d \<and> d \<le> 1 \<longrightarrow>
            (case SparseModel_dense eps seed (S m) (A m) t r d of
               Inl e \<Rightarrow> False
             | Inr m' \<Rightarrow> dense_reads_back eps t m' s a s1))"
proof -
  have e: "0 \<le> eps" using isProbability_eps assms by blast
  have 1: "dense_reads_back eps t (snd (setTransitionFunction eps t m)) s a s1"
    using setTransitionFunction_reads[OF assms] e by (simp add: dense_reads_back_def)
  let ?m1 = "(initModel seed (S m) (A m))\<lparr>discount := d\<rparr>"
  have b: "S ?m1 = S m" "A ?m1 = A m" "length (transitions ?m1) = A ?m1" by (simp_all add: initModel_def)
  have "getTransitionProbability (snd (setTransitionFunction eps t ?m1)) s a s1 =
           (if \<bar>t s a s1\<bar> \<le> eps then 0 else t s a s1)"
    using setTransitionFunction_reads[of eps ?m1 t s a s1] assms b by simp
  then have 2: "dense_reads_back eps t (setRewardFunction eps r (snd (setTransitionFunction eps t ?m1))) s a s1"
    using e by (simp add: dense_reads_back_def getTransitionProbability_def setRewardFunction_frame)
  show ?thesis
    using 1 2 setTransitionFunction_ok(1)[OF assms(1,2)] dense_ctor[OF assms(1)]
    by (simp add: case_prod_beta)
qed

text \<open>
  The rows 3/10, 7/10 are read back as they are, from the setter and from the constructor.
\<close>

theorem dense_roundtrip_witness:
  "isProbability (1/1000000) 2 1 2 t37
   \<and> getTransitionProbability (snd (setTransitionFunction (1/1000000) t37 (initModel 0 2 1))) 0 0 1 = 7/10
   \<and> (\<exists>m'. SparseModel_dense (1/1000000) 0 2 1 t37 rEx (9/10) = Inr m'
           \<and> getTransitionProbability m' 0 0 1 = 7/10)"
proof -
  let ?m = "initModel 0 2 1"
  have v: "isProbability (1/1000000) 2 1 2 t37" by code_simp
  have d: "S ?m = 2" "A ?m = 1" by (simp_all add: initModel_def)
  have h1: "isProbability (1/1000000) (S ?m) (A ?m) (S ?m) t37" using v by (simp only: d)
  have h2: "length (transitions ?m) = A ?m" by (simp add: initModel_def)
  have h3: "0 < S ?m" "0 < A ?m" "1 < S ?m" by (simp_all add: initModel_def)
  have t: "\<not> \<bar>t37 0 0 1\<bar> \<le> 1/1000000" "t37 0 0 1 = 7/10" by (simp_all add: t37_def)
  have R: "(case setTransitionFunction (1/1000000) t37 ?m of
            (e, m') \<Rightarrow> e = None \<and> dense_reads_back (1/1000000) t37 m' 0 0 1)
       \<and> (0 \<le> (9/10 :: real) \<and> (9/10 :: real) \<le> 1 \<longrightarrow>
            (case SparseModel_dense (1/1000000) 0 (S ?m) (A ?m) t37 rEx (9/10) of
               Inl e \<Rightarrow> False
             | Inr m' \<Rightarrow> dense_reads_back (1/1000000) t37 m' 0 0 1))"
    by (rule dense_roundtrip[OF h1 h2 h3(1) h3(2) h3(3)])
  from R have a: "getTransitionProbability (snd (setTransitionFunction (1/1000000) t37 ?m)) 0 0 1 = 7/10"
    using t by (simp only: dense_reads_back_def case_prod_beta if_False)
  from R have "case SparseModel_dense (1/1000000) 0 2 1 t37 rEx (9/10) of
               Inl e \<Rightarrow> False
             | Inr m' \<Rightarrow> dense_reads_back (1/1000000) t37 m' 0 0 1"
    by (simp only: d) simp
  then have b: "\<exists>m'. SparseModel_dense (1/1000000) 0 2 1 t37 rEx (9/10) = Inr m'
           \<and> getTransitionProbability m' 0 0 1 = 7/10"
    using t by (cases "SparseModel_dense (1/1000000) 0 2 1 t37 rEx (9/10)")
      (simp_all only: dense_reads_back_def if_False sum.case, simp)
  show ?thesis using v a b by blast
qed

text \<open>
  C8. For a discount in [0,1] the basic constructor gives a model in which every
  state loops to itself with probability 1 under every action, every other transition
  is 0, every expected reward is 0 and every state is terminal; for a discount outside
  [0,1] it fails with \<open>InvalidArgument\<close>.
\<close>

theorem basic_constructor:
  "(0 \<le> d \<and> d \<le> 1 \<longrightarrow>
      (\<exists>m. SparseModel_basic seed n k d = Inr m
         \<and> (\<forall>s<n. \<forall>a<k. getTransitionProbability m s a s = 1
                \<and> (\<forall>s1. s1 \<noteq> s \<longrightarrow> getTransitionProbability m s a s1 = 0)
                \<and> (\<forall>s1. getExpectedReward m s a s1 = 0))
         \<and> (\<forall>s<n. isTerminal m s)))
   \<and> (d < 0 \<or> 1 < d \<longrightarrow> SparseModel_basic seed n k d = Inl InvalidArgument)"
  by (auto simp: SparseModel_basic_def getTransitionProbability_def getExpectedReward_def
      identityMatrix_def emptyMatrix_def coeff_def isTerminal_def list_all_iff)

text \<open>
  Three states, two actions, discount 1.
\<close>

theorem basic_constructor_witness:
  "\<exists>m. SparseModel_basic 0 3 2 1 = Inr m
       \<and> getTransitionProbability m 2 1 2 = 1 \<and> getTransitionProbability m 2 1 0 = 0
       \<and> getExpectedReward m 2 1 0 = 0 \<and> isTerminal m 2"
proof -
  have "(0::real) \<le> 1 \<and> (1::real) \<le> 1" by simp
  then obtain m where m: "SparseModel_basic 0 3 2 1 = Inr m"
    and p: "\<forall>s<3. \<forall>a<2. getTransitionProbability m s a s = 1
                \<and> (\<forall>s1. s1 \<noteq> s \<longrightarrow> getTransitionProbability m s a s1 = 0)
                \<and> (\<forall>s1. getExpectedReward m s a s1 = 0)"
    and t: "\<forall>s<3. isTerminal m s"
    using basic_constructor[of 1 0 3 2] by blast
  have "(2::nat) < 3" "(1::nat) < 2" "(0::nat) \<noteq> 2" by simp_all
  then show ?thesis using m p t by blast
qed

text \<open>
  C9. For a state and an action in range of a valid model, with a tolerance below
  1, \<open>sampleSR\<close> returns a successor in range whose stored probability is not 0,
  selected by inverse-transform sampling on the draw, together with the reward stored
  at (s, a), which does not depend on the draw; the model it leaves differs from the
  one it was given in the engine state only.
\<close>

theorem sampleSR_inverse_transform:
  assumes v: "validModel eps m" and e: "eps < 1" and s: "s < S m" and a: "a < A m"
  shows "\<exists>s1. fst (sampleSR uniform m s a) = Some (s1, coeff (rewards m) s a)
            \<and> s1 < S m \<and> getTransitionProbability m s a s1 \<noteq> 0
            \<and> inverseTransform (fst (uniform (rand m))) (getTransitionProbability m s a) (S m) s1
            \<and> snd (sampleSR uniform m s a) = m\<lparr>rand := snd (uniform (rand m))\<rparr>"
proof -
  let ?p = "getTransitionProbability m s a"
  let ?u = "fst (uniform (rand m))"
  let ?nz = "nonzeroSuccessors m s a"
  have nzd: "?nz = filter (\<lambda>j. ?p j \<noteq> 0) [0..<S m]" by (simp add: nonzeroSuccessors_def)
  have "simplexWithin eps m s a" using v s a unfolding validModel_iff by blast
  then have "\<bar>sum_list (map ?p [0..<S m]) - 1\<bar> \<le> eps" unfolding simplexWithin_iff by blast
  with e have "sum_list (map ?p [0..<S m]) \<noteq> 0" by auto
  then have "\<exists>j\<in>set [0..<S m]. ?p j \<noteq> 0"
    using sum_list_all_zero[of "[0..<S m]" ?p] by blast
  then have ne: "?nz \<noteq> []" unfolding nzd by (simp add: filter_empty_conv)
  have "\<exists>s1. sampleProbability ?u ?p ?nz = Some s1 \<and> s1 < S m \<and> ?p s1 \<noteq> 0
            \<and> inverseTransform ?u ?p (S m) s1"
  proof (cases "firstExceeding ?u 0 ?p ?nz")
    case None
    then have n0: "firstExceeding ?u (sum_list (map ?p [0..<0])) ?p (filter (\<lambda>j. ?p j \<noteq> 0) [0..<S m]) = None"
      by (simp add: nzd)
    have below: "\<forall>j<S m. ?p j \<noteq> 0 \<longrightarrow> cumulative ?p j \<le> ?u"
      using firstExceeding_None[OF n0] by blast
    have l: "last ?nz < S m \<and> ?p (last ?nz) \<noteq> 0 \<and> (\<forall>j<S m. last ?nz < j \<longrightarrow> \<not> ?p j \<noteq> 0)"
      using last_filter_upt[of "\<lambda>j. ?p j \<noteq> 0" "S m"] ne unfolding nzd by blast
    have "sampleProbability ?u ?p ?nz = Some (last ?nz)"
      using None ne by (simp add: sampleProbability_def)
    moreover have "inverseTransform ?u ?p (S m) (last ?nz)"
      unfolding inverseTransform_def using below l by blast
    ultimately show ?thesis using l by blast
  next
    case (Some s1)
    then have n0: "firstExceeding ?u (sum_list (map ?p [0..<0])) ?p (filter (\<lambda>j. ?p j \<noteq> 0) [0..<S m]) = Some s1"
      by (simp add: nzd)
    note f = firstExceeding_Some[OF n0]
    have "sampleProbability ?u ?p ?nz = Some s1"
      using Some by (simp add: sampleProbability_def)
    moreover have "inverseTransform ?u ?p (S m) s1"
      unfolding inverseTransform_def using f by simp
    ultimately show ?thesis using f by blast
  qed
  then obtain s1 where r: "sampleProbability ?u ?p ?nz = Some s1" "s1 < S m" "?p s1 \<noteq> 0"
    "inverseTransform ?u ?p (S m) s1" by blast
  have "fst (sampleSR uniform m s a) = Some (s1, coeff (rewards m) s a)"
    using r(1) by (simp add: sampleSR_def case_prod_beta)
  moreover have "snd (sampleSR uniform m s a) = m\<lparr>rand := snd (uniform (rand m))\<rparr>"
    by (simp add: sampleSR_def case_prod_beta)
  ultimately show ?thesis using r by blast
qed

text \<open>
  On the row 3/10, 7/10 the draw 1/2 selects successor 1.
\<close>

theorem sampleSR_inverse_transform_witness:
  "validModel (1/1000000) modelEx
   \<and> (\<exists>s1. fst (sampleSR uniformHalf modelEx 0 0) = Some (s1, coeff (rewards modelEx) 0 0)
            \<and> s1 < S modelEx \<and> getTransitionProbability modelEx 0 0 s1 \<noteq> 0
            \<and> inverseTransform (fst (uniformHalf (rand modelEx)))
                  (getTransitionProbability modelEx 0 0) (S modelEx) s1
            \<and> snd (sampleSR uniformHalf modelEx 0 0)
                = modelEx\<lparr>rand := snd (uniformHalf (rand modelEx))\<rparr>)
   \<and> fst (sampleSR uniformHalf modelEx 0 0) = Some (1, 17)
   \<and> rand (snd (sampleSR uniformHalf modelEx 0 0)) = 1"
proof -
  have v: "validModel (1/1000000) modelEx" by code_simp
  have h: "(1/1000000 :: real) < 1" "0 < S modelEx" "0 < A modelEx" by code_simp+
  have x: "fst (sampleSR uniformHalf modelEx 0 0) = Some (1, 17)"
    "rand (snd (sampleSR uniformHalf modelEx 0 0)) = 1"
    by code_simp+
  show ?thesis
    using sampleSR_inverse_transform[OF v h, of uniformHalf] v x by blast
qed




end
